theory Spec2Isabelle
  imports
    Complex_Main
    "HOL-Library.Char_ord"
    "HOL-Library.List_Lexorder"
    "HOL-Library.Sublist"
begin

section \<open>The daily idle-time report of report\_scripts.py\<close>

text \<open>
  The script reads a table of vehicle moves, keeps the rows of one calendar day,
  labels each row with a reporting shift, aggregates idle time per shift and driver,
  and posts the rendered report to a webhook in one or two messages.

  Conventions of the embedding.
  \<^item> A Python \<open>str\<close> is a \<open>string\<close>, the UTF-8 bytes of the text. Comparing two such
    byte lists lexicographically orders them as Python orders the strings (by code
    point); searching, splitting at an ASCII character and replacing act on the bytes
    as Python acts on the characters.
  \<^item> A Python \<open>float\<close> is the rational number it holds. The operations on floats
    round, and are parameters of the model (\<open>float_arith\<close>).
  \<^item> What pandas and the interpreter read from a text (a number, a date, an integer)
    is a parameter of the model (\<open>library\<close>): the theorems hold for every reading.
  \<^item> An exception is a value \<open>Inl e\<close> of a sum type; \<open>Inr\<close> is a normal return.
  \<^item> \<open>print\<close> and \<open>time.sleep\<close> are left out; the calls of \<open>send_to_slack\<close> are kept,
    each as the outcome it has.
\<close>

subsection \<open>Python strings\<close>

text \<open>\<open>sub in s\<close> on strings: \<open>sub\<close> occurs in \<open>s\<close> as a contiguous run.\<close>

fun contains :: "string \<Rightarrow> string \<Rightarrow> bool" where
  "contains sub [] = (sub = [])"
| "contains sub (c # cs) = (prefix sub (c # cs) \<or> contains sub cs)"

text \<open>
  \<open>s.split(sep)\<close> for a separator of one character: the pieces between the separators,
  never an empty list.
\<close>

fun split :: "char \<Rightarrow> string \<Rightarrow> string list" where
  "split sep [] = [[]]"
| "split sep (c # cs) =
     (if c = sep then [] # split sep cs
      else (case split sep cs of
              [] \<Rightarrow> [[c]]
            | p # ps \<Rightarrow> (c # p) # ps))"

text \<open>
  \<open>s.replace(old, new)\<close>, scanning from the left without overlap. The script calls it
  with a non-empty \<open>old\<close> only; for an empty one the string is returned as it is.
\<close>

function replace :: "string \<Rightarrow> string \<Rightarrow> string \<Rightarrow> string" where
  "replace old new [] = []"
| "replace old new (c # cs) =
     (if old \<noteq> [] \<and> prefix old (c # cs)
      then new @ replace old new (drop (length old) (c # cs))
      else c # replace old new cs)"
  by pat_completeness auto
termination
  by (relation "measure (\<lambda>(old, new, s). length s)") auto

text \<open>
  The slices \<open>s[:n]\<close> and \<open>s[n:]\<close> count characters. In UTF-8 a character is a byte
  that is no continuation byte, followed by its continuation bytes.
\<close>

definition is_continuation :: "char \<Rightarrow> bool" where
  "is_continuation c = (CHR 0x80 \<le> c \<and> c < CHR 0xC0)"

fun take_chars :: "nat \<Rightarrow> string \<Rightarrow> string" where
  "take_chars 0 s = []"
| "take_chars (Suc n) [] = []"
| "take_chars (Suc n) (c # cs) =
     c # takeWhile is_continuation cs @ take_chars n (dropWhile is_continuation cs)"

fun drop_chars :: "nat \<Rightarrow> string \<Rightarrow> string" where
  "drop_chars 0 s = s"
| "drop_chars (Suc n) [] = []"
| "drop_chars (Suc n) (c # cs) = drop_chars n (dropWhile is_continuation cs)"

subsection \<open>Configuration\<close>

definition LATE_SHIFT_START_HOUR :: rat where
  "LATE_SHIFT_START_HOUR = 20"

definition BENCHMARK_IDLE_TIME :: rat where
  "BENCHMARK_IDLE_TIME = 68 / 100"

definition PLACEHOLDER_URL :: string where
  "PLACEHOLDER_URL = ''YOUR_NEW_SLACK_APP_WEBHOOK_URL_HERE''"

subsection \<open>Status symbols\<close>

text \<open>
  The four statuses and the symbol of each, as the legend of the report pairs them
  (\<open>idle_impact_key\<close>): the red, orange, yellow and green circles U+1F534, U+1F7E0,
  U+1F7E1 and U+1F7E2, in UTF-8.
\<close>

datatype status = Very_Bad | Bad | Fine | Great

fun symbol :: "status \<Rightarrow> string" where
  "symbol Very_Bad = [CHR 0xF0, CHR 0x9F, CHR 0x94, CHR 0xB4]"
| "symbol Bad = [CHR 0xF0, CHR 0x9F, CHR 0x9F, CHR 0xA0]"
| "symbol Fine = [CHR 0xF0, CHR 0x9F, CHR 0x9F, CHR 0xA1]"
| "symbol Great = [CHR 0xF0, CHR 0x9F, CHR 0x9F, CHR 0xA2]"

definition get_impact_emoji :: "rat \<Rightarrow> string" where
  "get_impact_emoji idle_impact =
     (if idle_impact \<ge> 20 then symbol Very_Bad
      else if idle_impact \<ge> 10 then symbol Bad
      else if idle_impact \<ge> 0 then symbol Fine
      else symbol Great)"

definition get_site_average_emoji :: "rat \<Rightarrow> string" where
  "get_site_average_emoji site_average =
     (if site_average > 135 / 100 then symbol Very_Bad
      else if site_average > 1 then symbol Bad
      else if site_average \<ge> 68 / 100 then symbol Fine
      else symbol Great)"

subsection \<open>The table\<close>

text \<open>
  One row of the table, by the four columns the script reads, as \<open>pd.read_csv\<close> and
  \<open>pd.to_datetime\<close> (steps 1 and 2) give it. \<open>start_date\<close>, \<open>start_hour\<close> and
  \<open>start_minute\<close> are the parsed \<open>Start Time (Local)\<close>, the date as year, month and
  day. \<open>shift_code\<close> is the text of the \<open>Shift Code\<close> cell in the file.
  \<open>driver = None\<close> is a \<open>Driver\<close> cell that pandas holds as NaN (an empty cell). The
  table has the four columns, and every row a timestamp, a shift code and an idle time.
\<close>

type_synonym date = "nat \<times> nat \<times> nat"

record row =
  start_date :: date
  start_hour :: nat
  start_minute :: nat
  shift_code :: string
  driver :: "string option"
  idle_time :: rat

datatype py_error = ValueError | TypeError | AttributeError | OSError

text \<open>
  The readings of texts by pandas and by the interpreter, which are not part of the
  script:
  \<^item> \<open>reads_as_text\<close>: from the texts of the cells of a column, whether
    \<open>pd.read_csv\<close> leaves the column as texts, and does not convert it to numbers or
    to another type;
  \<^item> \<open>to_numeric_cell\<close>: what \<open>pd.to_numeric\<close> reads from one cell, \<open>None\<close> where it
    cannot parse the cell;
  \<^item> \<open>to_datetime\<close>: the date of \<open>pd.to_datetime(target_day_str)\<close>, \<open>None\<close> where it
    raises;
  \<^item> \<open>python_int\<close>: the builtin \<open>int(s)\<close>, \<open>None\<close> where it raises \<open>ValueError\<close>.
\<close>

record library =
  reads_as_text :: "string list \<Rightarrow> bool"
  to_numeric_cell :: "string \<Rightarrow> rat option"
  to_datetime :: "string \<Rightarrow> date option"
  python_int :: "string \<Rightarrow> int option"

text \<open>
  The operations on floats that the aggregation uses: \<open>Series.mean\<close> and the
  subtraction, multiplication and division of numpy. They take the numbers that the
  script writes and computes; the rounding, of a literal as of a result, is theirs.
\<close>

record float_arith =
  fmean :: "rat list \<Rightarrow> rat"
  fsub :: "rat \<Rightarrow> rat \<Rightarrow> rat"
  fmul :: "rat \<Rightarrow> rat \<Rightarrow> rat"
  fdiv :: "rat \<Rightarrow> rat \<Rightarrow> rat"

text \<open>\<open>df[df[DATE_COLUMN].dt.date == target_date]\<close>.\<close>

definition activity_on_target_day :: "row list \<Rightarrow> date \<Rightarrow> row list" where
  "activity_on_target_day df target_date = filter (\<lambda>r. start_date r = target_date) df"

subsection \<open>Shift classification\<close>

text \<open>\<open>df[SHIFT_COLUMN].str.split('-').str[-1]\<close>, on one row of a column of texts.\<close>

definition Cleaned_Shift :: "row \<Rightarrow> string" where
  "Cleaned_Shift r = last (split (CHR ''-'') (shift_code r))"

text \<open>
  \<open>pd.to_numeric\<close> on a column, from its reading \<open>num\<close> of one cell: it raises as soon
  as one cell does not parse.
\<close>

fun to_numeric :: "(string \<Rightarrow> rat option) \<Rightarrow> string list \<Rightarrow> py_error + rat list" where
  "to_numeric num [] = Inr []"
| "to_numeric num (s # ss) =
     (case num s of
        None \<Rightarrow> Inl ValueError
      | Some v \<Rightarrow> (case to_numeric num ss of
                    Inl e \<Rightarrow> Inl e
                  | Inr vs \<Rightarrow> Inr (v # vs)))"

text \<open>The body of the \<open>try\<close>: the boolean column \<open>overnight_condition\<close>, or the exception.\<close>

definition overnight_condition ::
  "(string \<Rightarrow> rat option) \<Rightarrow> row list \<Rightarrow> py_error + bool list" where
  "overnight_condition num activity =
     (case to_numeric num (map Cleaned_Shift activity) of
        Inl e \<Rightarrow> Inl e
      | Inr vs \<Rightarrow>
          Inr (map2 (\<lambda>r v. start_hour r < 5 \<and> v \<ge> LATE_SHIFT_START_HOUR * 100) activity vs))"

text \<open>
  The column \<open>Reporting Shift\<close>: a copy of \<open>Cleaned Shift\<close>, overwritten where the
  condition holds; \<open>except Exception\<close> leaves the copy as it is.
\<close>

definition Reporting_Shift :: "(string \<Rightarrow> rat option) \<Rightarrow> row list \<Rightarrow> string list" where
  "Reporting_Shift num activity =
     (case overnight_condition num activity of
        Inl e \<Rightarrow> map Cleaned_Shift activity
      | Inr cond \<Rightarrow>
          map2 (\<lambda>r b. if b then Cleaned_Shift r @ '' (Overnight)'' else Cleaned_Shift r)
            activity cond)"

text \<open>
  The rule as the specification words it, one record at a time: the cleaned code, with
  the suffix exactly when the hour is before 5 and the code parses to a number of at
  least \<open>LATE_SHIFT_START_HOUR * 100\<close>. It is compared with \<open>Reporting_Shift\<close> below.
\<close>

definition per_record_rule :: "(string \<Rightarrow> rat option) \<Rightarrow> row \<Rightarrow> string" where
  "per_record_rule num r =
     (case num (Cleaned_Shift r) of
        None \<Rightarrow> Cleaned_Shift r
      | Some v \<Rightarrow>
          if start_hour r < 5 \<and> v \<ge> LATE_SHIFT_START_HOUR * 100
          then Cleaned_Shift r @ '' (Overnight)''
          else Cleaned_Shift r)"

subsection \<open>Order of the shifts\<close>

text \<open>\<open>Series.unique()\<close>: the distinct values in the order of their first occurrence.\<close>

definition unique :: "'a list \<Rightarrow> 'a list" where
  "unique xs = rev (remdups (rev xs))"

definition shift_sort_key :: "string \<Rightarrow> string" where
  "shift_sort_key shift_name =
     (if contains ''(Overnight)'' shift_name then ''0_'' @ shift_name else ''1_'' @ shift_name)"

definition sorted_shifts :: "string list \<Rightarrow> string list" where
  "sorted_shifts labels = sort_key shift_sort_key (unique labels)"

subsection \<open>Aggregation\<close>

text \<open>The rows whose label is \<open>shift_name\<close>; \<open>labels\<close> is the column \<open>Reporting Shift\<close>.\<close>

definition shift_activity :: "row list \<Rightarrow> string list \<Rightarrow> string \<Rightarrow> row list" where
  "shift_activity activity labels shift_name =
     map fst (filter (\<lambda>(r, l). l = shift_name) (zip activity labels))"

text \<open>One row of \<open>shift_summary\<close>, after the columns are renamed and the index is reset.\<close>

record driver_row =
  Status :: string
  Driver :: string
  Avg_Idle_Time :: rat
  Move_Count :: nat
  pct_of_Moves :: rat
  Idle_Impact :: rat

text \<open>
  \<open>groupby(EMPLOYEE_COLUMN)\<close> with the defaults of pandas: one group per driver, the
  groups in the order of the drivers' names, and the rows with no driver (NaN) in no
  group.
\<close>

definition group_keys :: "row list \<Rightarrow> string list" where
  "group_keys rows = sort (remdups (List.map_filter driver rows))"

definition driver_stats :: "float_arith \<Rightarrow> nat \<Rightarrow> row list \<Rightarrow> string \<Rightarrow> driver_row" where
  "driver_stats ar total_daily_moves rows d =
     (let idle = map idle_time (filter (\<lambda>r. driver r = Some d) rows);
          avg = fmean ar idle;
          move_count = length idle;
          impact = fmul ar (fsub ar avg BENCHMARK_IDLE_TIME) (of_nat move_count)
      in \<lparr>Status = get_impact_emoji impact, Driver = d, Avg_Idle_Time = avg,
          Move_Count = move_count,
          pct_of_Moves = fdiv ar (of_nat move_count) (of_nat total_daily_moves),
          Idle_Impact = impact\<rparr>)"

text \<open>
  The table of one shift, sorted by \<open>Idle Impact\<close>. The sort of pandas leaves the
  order of rows with equal impact open; here they keep the order of the groups.
\<close>

definition shift_summary :: "float_arith \<Rightarrow> nat \<Rightarrow> row list \<Rightarrow> driver_row list" where
  "shift_summary ar total_daily_moves rows =
     sort_key Idle_Impact (map (driver_stats ar total_daily_moves rows) (group_keys rows))"

text \<open>
  \<open>nlargest(5, IDLE_TIME_COLUMN)\<close>: the five rows of longest idle time, earlier rows
  first among equals.
\<close>

definition top_5 :: "row list \<Rightarrow> row list" where
  "top_5 activity = take 5 (sort_key (\<lambda>r. - idle_time r) activity)"

subsection \<open>Rendering\<close>

text \<open>
  The texts whose content is number and date formatting are parameters of the model:
  \<open>message_parts_text\<close> is \<open>"\n".join(message_parts)\<close>, from the target day, the site
  average, its symbol and the top five rows; \<open>format_for_slack\<close> is the table of one
  shift; \<open>exception_text\<close> is \<open>str(e)\<close>.
\<close>

record rendering =
  message_parts_text :: "string \<Rightarrow> rat \<Rightarrow> string \<Rightarrow> row list \<Rightarrow> string"
  format_for_slack :: "driver_row list \<Rightarrow> string"
  exception_text :: "py_error \<Rightarrow> string"

definition newline :: string where
  "newline = [CHR 0x0A]"

text \<open>The header line of a shift.\<close>

definition shift_header :: "string \<Rightarrow> string" where
  "shift_header shift_name =
     (let display_shift = replace '' (Overnight)'' [] shift_name;
          formatted_shift = take_chars 2 display_shift @ '':'' @ drop_chars 2 display_shift
      in if contains ''(Overnight)'' shift_name
         then newline @ ''*'' @ formatted_shift @ ''* (from previous day)''
         else newline @ ''*'' @ formatted_shift @ ''*'')"

definition NO_EMPLOYEE_DATA :: string where
  "NO_EMPLOYEE_DATA = ''No employee data to analyze for this shift.''"

definition shift_table :: "(driver_row list \<Rightarrow> string) \<Rightarrow> driver_row list \<Rightarrow> string" where
  "shift_table fmt summary =
     (if summary = [] then NO_EMPLOYEE_DATA else ''```'' @ fmt summary @ ''```'')"

definition shift_report ::
  "float_arith \<Rightarrow> (driver_row list \<Rightarrow> string) \<Rightarrow> nat \<Rightarrow> row list \<Rightarrow> string list \<Rightarrow> string
     \<Rightarrow> string" where
  "shift_report ar fmt total_daily_moves activity labels shift_name =
     shift_header shift_name @ newline
       @ shift_table fmt
           (shift_summary ar total_daily_moves (shift_activity activity labels shift_name))"

subsection \<open>Splitting and sending\<close>

text \<open>
  The loop over \<open>enumerate(sorted_shifts)\<close>: \<open>split_index\<close> so far, the index \<open>i\<close> of
  the next label, and the labels left. \<open>int_of\<close> is the reading of the builtin \<open>int\<close>.
\<close>

fun find_split_index :: "(string \<Rightarrow> int option) \<Rightarrow> int \<Rightarrow> int \<Rightarrow> string list \<Rightarrow> int" where
  "find_split_index int_of split_index i [] = split_index"
| "find_split_index int_of split_index i (shift_name # rest) =
     (case int_of (hd (split (CHR '' '') shift_name)) of
        None \<Rightarrow> find_split_index int_of split_index (i + 1) rest
      | Some v \<Rightarrow> find_split_index int_of (if v < 600 then i else split_index) (i + 1) rest)"

definition CONTINUED :: string where
  "CONTINUED = [CHR 0xF0, CHR 0x9F, CHR 0x93, CHR 0x8A]
     @ '' *Daily Idling Time Report (continued)*'' @ newline"

text \<open>
  The report of a day with records, from the column of labels on: the message or the
  two messages that the run hands to \<open>send_to_slack\<close>, in order.
\<close>

definition report_messages ::
  "(string \<Rightarrow> int option) \<Rightarrow> float_arith \<Rightarrow> rendering \<Rightarrow> string \<Rightarrow> row list \<Rightarrow> string list
     \<Rightarrow> string list" where
  "report_messages int_of ar rend target_day_str activity labels =
     (let total_daily_moves = length activity;
          site_average = fmean ar (map idle_time activity);
          shifts = sorted_shifts labels;
          message_parts = message_parts_text rend target_day_str site_average
                            (get_site_average_emoji site_average) (top_5 activity);
          all_shift_reports =
            map (shift_report ar (format_for_slack rend) total_daily_moves activity labels)
              shifts;
          split_index = find_split_index int_of (- 1) 0 shifts
      in if split_index = - 1 \<or> split_index = int (length all_shift_reports) - 1 then
           [message_parts @ concat all_shift_reports]
         else
           [message_parts @ concat (take (nat (split_index + 1)) all_shift_reports),
            CONTINUED @ concat (drop (nat (split_index + 1)) all_shift_reports)])"

text \<open>
  What a call of \<open>send_to_slack\<close> does: it skips with a warning, or posts the message
  to the URL. The answer of the webhook changes what is printed and nothing else.
  \<open>SLACK_WEBHOOK_URL\<close> is \<open>os.environ.get("WEBHOOK_URL")\<close>: \<open>None\<close> when the variable
  is not set, and then \<open>in\<close> raises \<open>TypeError\<close> before the \<open>try\<close>.
\<close>

datatype delivery = Skipped_With_Warning | Posted string string

definition send_to_slack :: "string option \<Rightarrow> string \<Rightarrow> py_error + delivery" where
  "send_to_slack SLACK_WEBHOOK_URL message =
     (case SLACK_WEBHOOK_URL of
        None \<Rightarrow> Inl TypeError
      | Some url \<Rightarrow>
          if contains PLACEHOLDER_URL url then Inr Skipped_With_Warning
          else Inr (Posted url message))"

text \<open>The calls of \<open>send_to_slack\<close> on the messages in order, up to the first that raises.\<close>

fun send_all :: "string option \<Rightarrow> string list \<Rightarrow> py_error + delivery list" where
  "send_all url [] = Inr []"
| "send_all url (message # rest) =
     (case send_to_slack url message of
        Inl e \<Rightarrow> Inl e
      | Inr d \<Rightarrow> (case send_all url rest of
                    Inl e \<Rightarrow> Inl e
                  | Inr ds \<Rightarrow> Inr (d # ds)))"

text \<open>
  The body of the outer \<open>try\<close>: the deliveries of the run in order, or the exception
  that leaves the body. \<open>loaded\<close> is the outcome of steps 1 and 2, the exception that
  \<open>pd.read_csv\<close> or \<open>pd.to_datetime\<close> raises or the table. In step 3 the accessor
  \<open>.str\<close> raises \<open>AttributeError\<close> on a column \<open>Shift Code\<close> that was not left as
  texts, and step 4 raises where the target day does not parse. The calls of
  \<open>send_to_slack\<close> are the last statements of their path, so nothing is delivered
  before an exception of another statement.
\<close>

definition analysis ::
  "library \<Rightarrow> float_arith \<Rightarrow> rendering \<Rightarrow> string option \<Rightarrow> py_error + row list \<Rightarrow> string
     \<Rightarrow> py_error + delivery list" where
  "analysis lib ar rend url loaded target_day_str =
     (case loaded of
        Inl e \<Rightarrow> Inl e
      | Inr df \<Rightarrow>
          if \<not> reads_as_text lib (map shift_code df) then Inl AttributeError
          else
            (case to_datetime lib target_day_str of
               None \<Rightarrow> Inl ValueError
             | Some target_date \<Rightarrow>
                 let activity = activity_on_target_day df target_date in
                 if activity = [] then
                   send_all url [''No data found for the date: '' @ target_day_str]
                 else
                   send_all url
                     (report_messages (python_int lib) ar rend target_day_str activity
                        (Reporting_Shift (to_numeric_cell lib) activity))))"

text \<open>
  The run: the body, and the handler \<open>except Exception as e\<close>, whose own call of
  \<open>send_to_slack\<close> is outside every \<open>try\<close>.
\<close>

definition analyze_day_performance ::
  "library \<Rightarrow> float_arith \<Rightarrow> rendering \<Rightarrow> string option \<Rightarrow> py_error + row list \<Rightarrow> string
     \<Rightarrow> py_error + delivery list" where
  "analyze_day_performance lib ar rend url loaded target_day_str =
     (case analysis lib ar rend url loaded target_day_str of
        Inr ds \<Rightarrow> Inr ds
      | Inl e \<Rightarrow>
          (case send_to_slack url
                  (''An unexpected error occurred in the daily report: '' @ exception_text rend e) of
             Inl e' \<Rightarrow> Inl e'
           | Inr d \<Rightarrow> Inr [d]))"

subsection \<open>The words of the specification\<close>




text \<open>
  The records of the day that have the label \<open>shift_name\<close> and name the driver \<open>d\<close>;
  \<open>labels\<close> is the column of labels of the day's records.
\<close>

definition driver_records :: "row list \<Rightarrow> string list \<Rightarrow> string \<Rightarrow> string \<Rightarrow> row list" where
  "driver_records activity labels shift_name d =
     map fst (filter (\<lambda>(r, l). l = shift_name \<and> driver r = Some d) (zip activity labels))"

text \<open>What a send of a message delivers when the webhook URL is set.\<close>

definition sent :: "string \<Rightarrow> string \<Rightarrow> delivery" where
  "sent url message =
     (if contains PLACEHOLDER_URL url then Skipped_With_Warning else Posted url message)"

subsection \<open>Example inputs\<close>

text \<open>
  Readings for the examples. A text of decimal digits reads as the number it writes,
  as a cell for \<open>pd.to_numeric\<close> and as an integer for \<open>int\<close>; any other text does
  not read. The examples use texts of digits and texts with letters only, on which
  pandas and the interpreter do the same.
\<close>

definition is_digit :: "char \<Rightarrow> bool" where
  "is_digit c = (CHR ''0'' \<le> c \<and> c \<le> CHR ''9'')"

definition digit_val :: "char \<Rightarrow> nat" where
  "digit_val c = of_char c - 48"

fun digits_value :: "nat \<Rightarrow> string \<Rightarrow> nat option" where
  "digits_value acc [] = Some acc"
| "digits_value acc (c # cs) =
     (if is_digit c then digits_value (10 * acc + digit_val c) cs else None)"

definition unsigned_value :: "string \<Rightarrow> nat option" where
  "unsigned_value s =
     (case s of
        [] \<Rightarrow> None
      | c # cs \<Rightarrow> if is_digit c then digits_value (digit_val c) cs else None)"

definition numeric_of_digits :: "string \<Rightarrow> rat option" where
  "numeric_of_digits s =
     (if s \<noteq> [] \<and> list_all is_digit s then map_option of_nat (unsigned_value s) else None)"

definition int_of_digits :: "string \<Rightarrow> int option" where
  "int_of_digits s =
     (if s \<noteq> [] \<and> list_all is_digit s then map_option int (unsigned_value s) else None)"

text \<open>
  A reading of the target day: a year of four digits, a month and a day of one or two
  digits, joined by \<open>-\<close>, that name a day of the calendar. pandas reads other
  spellings too; the examples use this one.
\<close>

definition digits_nat :: "string \<Rightarrow> nat option" where
  "digits_nat s = (if s \<noteq> [] \<and> list_all is_digit s then unsigned_value s else None)"

definition days_in_month :: "nat \<Rightarrow> nat \<Rightarrow> nat" where
  "days_in_month y m =
     (if m = 2 then (if y mod 4 = 0 \<and> (y mod 100 \<noteq> 0 \<or> y mod 400 = 0) then 29 else 28)
      else if m \<in> set [4, 6, 9, 11] then 30
      else 31)"

definition iso_date :: "string \<Rightarrow> date option" where
  "iso_date s =
     (case split (CHR ''-'') s of
        [ys, ms, ds] \<Rightarrow>
          if length ys = 4 \<and> length ms \<le> 2 \<and> length ds \<le> 2 then
            (case (digits_nat ys, digits_nat ms, digits_nat ds) of
               (Some y, Some m, Some d) \<Rightarrow>
                 if 1 \<le> m \<and> m \<le> 12 \<and> 1 \<le> d \<and> d \<le> days_in_month y m then Some (y, m, d)
                 else None
             | _ \<Rightarrow> None)
          else None
      | _ \<Rightarrow> None)"

text \<open>
  A reading of the type of a column: the column is left as texts when it has no cell or
  a cell that is not a number, and becomes a column of numbers when every cell is one.
\<close>

definition text_column :: "string list \<Rightarrow> bool" where
  "text_column cells = (cells = [] \<or> list_ex (\<lambda>s. numeric_of_digits s = None) cells)"

definition example_library :: library where
  "example_library =
     \<lparr>reads_as_text = text_column,
      to_numeric_cell = numeric_of_digits,
      to_datetime = iso_date,
      python_int = int_of_digits\<rparr>"

text \<open>
  An arithmetic without rounding. The examples state counts of records and the order
  of rows, which rounding does not change on their numbers.
\<close>

definition mean :: "rat list \<Rightarrow> rat" where
  "mean xs = sum_list xs / of_nat (length xs)"

definition exact_arith :: float_arith where
  "exact_arith =
     \<lparr>fmean = mean, fsub = (\<lambda>a b. a - b), fmul = (\<lambda>a b. a * b), fdiv = (\<lambda>a b. a / b)\<rparr>"

definition move :: "date \<Rightarrow> nat \<Rightarrow> string \<Rightarrow> string option \<Rightarrow> rat \<Rightarrow> row" where
  "move date h code d idle =
     \<lparr>start_date = date, start_hour = h, start_minute = 0, shift_code = code,
      driver = d, idle_time = idle\<rparr>"

definition example_rendering :: rendering where
  "example_rendering =
     \<lparr>message_parts_text = (\<lambda>day avg sym top. ''Report '' @ day),
      format_for_slack = (\<lambda>summary. concat (map Driver summary)),
      exception_text =
        (\<lambda>e. case e of
                AttributeError \<Rightarrow> ''Can only use .str accessor with string values!''
              | _ \<Rightarrow> ''error'')\<rparr>"

definition example_url :: string where
  "example_url = ''https://hooks.example/T0''"

section \<open>Properties\<close>

subsection \<open>Status thresholds\<close>


subsection \<open>Strings\<close>

lemma split_nonempty: "split sep s \<noteq> []"
  by (induction s) (auto split: list.splits)

lemma split_no_sep: "sep \<notin> set s \<Longrightarrow> split sep s = [s]"
  by (induction s) auto

lemma split_single: "split sep s = [p] \<Longrightarrow> sep \<notin> set s"
proof (induction s arbitrary: p)
  case Nil
  show ?case by simp
next
  case (Cons c cs)
  show ?case
  proof (cases "c = sep")
    case True
    with Cons.prems show ?thesis by (simp add: split_nonempty)
  next
    case False
    obtain q qs where sp: "split sep cs = q # qs"
      using split_nonempty [of sep cs] by (cases "split sep cs") auto
    with Cons.prems False have "qs = []" by simp
    with sp Cons.IH have "sep \<notin> set cs" by simp
    with False show ?thesis by simp
  qed
qed

text \<open>The last piece of a split is the longest tail of the text that is free of the separator.\<close>

lemma last_split: "last (split sep s) = rev (takeWhile (\<lambda>c. c \<noteq> sep) (rev s))"
proof (induction s)
  case Nil
  show ?case by simp
next
  case (Cons c cs)
  show ?case
  proof (cases "sep \<in> set (c # cs)")
    case False
    then have "split sep (c # cs) = [c # cs]" by (rule split_no_sep)
    moreover have "takeWhile (\<lambda>x. x \<noteq> sep) (rev (c # cs)) = rev (c # cs)"
      unfolding takeWhile_eq_all_conv using False by auto
    ultimately show ?thesis by (simp only: last.simps rev_rev_ident simp_thms if_True)
  next
    case True
    show ?thesis
    proof (cases "c = sep")
      case c: True
      show ?thesis
      proof (cases "sep \<in> set cs")
        case True
        then show ?thesis using c Cons.IH by (simp add: split_nonempty takeWhile_append)
      next
        case False
        then have "split sep cs = [cs]" by (rule split_no_sep)
        then show ?thesis using c False by (simp add: takeWhile_append)
      qed
    next
      case c: False
      with True have mem: "sep \<in> set cs" by simp
      obtain q qs where sp: "split sep cs = q # qs"
        using split_nonempty [of sep cs] by (cases "split sep cs") auto
      have "qs \<noteq> []" using split_single [of sep cs q] sp mem by auto
      then show ?thesis using c sp mem Cons.IH by (auto simp add: takeWhile_append)
    qed
  qed
qed


lemma contains_append: "contains sub (pre @ sub @ post)"
proof (induction pre)
  case Nil
  show ?case
  proof (cases "sub @ post")
    case Nil
    then show ?thesis by simp
  next
    case (Cons a list)
    have "prefix sub (sub @ post)" by simp
    with Cons show ?thesis by simp
  qed
next
  case (Cons p ps)
  then show ?case by simp
qed

subsection \<open>Classification\<close>

lemma to_numeric_all:
  "\<forall>s\<in>set ss. num s \<noteq> None \<Longrightarrow> to_numeric num ss = Inr (map (\<lambda>s. the (num s)) ss)"
  by (induction ss) auto


lemma Reporting_Shift_all_numeric:
  assumes "\<forall>r\<in>set activity. num (Cleaned_Shift r) \<noteq> None"
  shows "Reporting_Shift num activity = map (per_record_rule num) activity"
proof -
  have "to_numeric num (map Cleaned_Shift activity)
        = Inr (map (\<lambda>s. the (num s)) (map Cleaned_Shift activity))"
    using assms by (intro to_numeric_all) auto
  then have "Reporting_Shift num activity =
    map2 (\<lambda>r b. if b then Cleaned_Shift r @ '' (Overnight)'' else Cleaned_Shift r) activity
      (map2 (\<lambda>r v. start_hour r < 5 \<and> v \<ge> LATE_SHIFT_START_HOUR * 100) activity
         (map (\<lambda>r. the (num (Cleaned_Shift r))) activity))"
    by (simp add: Reporting_Shift_def overnight_condition_def comp_def)
  also have "\<dots> = map (per_record_rule num) activity"
    using assms by (induction activity) (auto simp: per_record_rule_def)
  finally show ?thesis .
qed


lemma length_Reporting_Shift: "length (Reporting_Shift num activity) = length activity"
proof (cases "to_numeric num (map Cleaned_Shift activity)")
  case (Inl e)
  then show ?thesis by (simp add: Reporting_Shift_def overnight_condition_def)
next
  case (Inr vs)
  have len: "\<And>vs. to_numeric num ss = Inr vs \<Longrightarrow> length vs = length ss" for ss
    by (induction ss) (auto split: option.splits sum.splits)
  from len [OF Inr] Inr show ?thesis
    by (simp add: Reporting_Shift_def overnight_condition_def)
qed

subsection \<open>Evaluation of the examples\<close>

lemma numeric_of_digits_examples:
  "numeric_of_digits ''2200'' = Some 2200"
  "numeric_of_digits ''2300'' = Some 2300"
  "numeric_of_digits ''1430'' = Some 1430"
  "numeric_of_digits ''1400'' = Some 1400"
  "numeric_of_digits ''0700'' = Some 700"
  "numeric_of_digits ''0600'' = Some 600"
  "numeric_of_digits ''0500'' = Some 500"
  "numeric_of_digits ''DOCK'' = None"
  "numeric_of_digits ''NIGHT'' = None"
  "numeric_of_digits ''SITE-0600'' = None"
  "numeric_of_digits ''SITE-0500'' = None"
  "numeric_of_digits ''SITE-2200'' = None"
  by (simp_all add: numeric_of_digits_def is_digit_def unsigned_value_def digit_val_def)


lemma iso_date_example: "iso_date ''2024-05-01'' = Some (2024, 5, 1)"
  by (simp add: iso_date_def digits_nat_def is_digit_def unsigned_value_def digit_val_def
      days_in_month_def)

lemma example_library_simps:
  "reads_as_text example_library = text_column"
  "to_numeric_cell example_library = numeric_of_digits"
  "to_datetime example_library = iso_date"
  "python_int example_library = int_of_digits"
  by (simp_all add: example_library_def)

lemma Cleaned_Shift_move: "Cleaned_Shift (move date h code d idle) = last (split (CHR ''-'') code)"
  by (simp add: Cleaned_Shift_def move_def)

lemma start_hour_move: "start_hour (move date h code d idle) = h"
  by (simp add: move_def)

subsection \<open>Order of the shifts\<close>

lemma key_less:
  "contains ''(Overnight)'' a \<Longrightarrow> \<not> contains ''(Overnight)'' b
     \<Longrightarrow> shift_sort_key a < shift_sort_key b"
  by (simp add: shift_sort_key_def)

lemma sorted_key_partition:
  "sorted (map shift_sort_key ss) \<Longrightarrow>
   ss = filter (contains ''(Overnight)'') ss @ filter (\<lambda>s. \<not> contains ''(Overnight)'' s) ss"
proof (induction ss)
  case Nil
  show ?case by simp
next
  case (Cons x xs)
  then have le: "\<forall>y\<in>set xs. shift_sort_key x \<le> shift_sort_key y"
    and IH: "xs = filter (contains ''(Overnight)'') xs
                  @ filter (\<lambda>s. \<not> contains ''(Overnight)'' s) xs"
    by auto
  show ?case
  proof (cases "contains ''(Overnight)'' x")
    case True
    then show ?thesis using IH by simp
  next
    case False
    have "\<forall>y\<in>set xs. \<not> contains ''(Overnight)'' y"
    proof
      fix y assume y: "y \<in> set xs"
      show "\<not> contains ''(Overnight)'' y"
      proof
        assume "contains ''(Overnight)'' y"
        then have "shift_sort_key y < shift_sort_key x" using False by (rule key_less)
        with le y show False by auto
      qed
    qed
    then have "filter (contains ''(Overnight)'') xs = []"
      and "filter (\<lambda>s. \<not> contains ''(Overnight)'' s) xs = xs"
      by (auto simp: filter_empty_conv filter_id_conv)
    with False show ?thesis by simp
  qed
qed

lemma set_unique: "set (unique xs) = set xs"
  by (simp add: unique_def)

lemma distinct_unique: "distinct (unique xs)"
  by (simp add: unique_def)

lemma set_sorted_shifts: "set (sorted_shifts labels) = set labels"
  by (simp add: sorted_shifts_def set_unique)

lemma distinct_sorted_shifts: "distinct (sorted_shifts labels)"
  by (simp add: sorted_shifts_def distinct_unique)

lemma sorted_sorted_shifts: "sorted (map shift_sort_key (sorted_shifts labels))"
  by (simp add: sorted_shifts_def)

subsection \<open>The overnight rule\<close>

text \<open>
  Claim C1, as amended. On a day whose cleaned shift codes all parse as numbers, the
  reporting shift of every record is its cleaned code, with the suffix " (Overnight)"
  exactly when the hour of the record is before 5 and the number is at least
  \<open>LATE_SHIFT_START_HOUR * 100\<close>; the cleaned code is the text after the last '-' of
  the shift code.
\<close>

theorem reporting_shift_on_numeric_day:
  assumes "\<forall>r\<in>set activity. num (Cleaned_Shift r) \<noteq> None"
  shows "Reporting_Shift num activity = map (per_record_rule num) activity
         \<and> (\<forall>r. Cleaned_Shift r = rev (takeWhile (\<lambda>c. c \<noteq> CHR ''-'') (rev (shift_code r))))"
  using Reporting_Shift_all_numeric [OF assms] by (simp add: Cleaned_Shift_def last_split)

text \<open>
  The examples of the claim: code 2200 at hour 2 and at hour 14, beside a code with a
  site prefix.
\<close>

theorem reporting_shift_on_numeric_day_witness:
  "list_all (\<lambda>r. numeric_of_digits (Cleaned_Shift r) \<noteq> None)
     [move (2024, 5, 1) 2 ''2200'' (Some ''Ann'') 1,
      move (2024, 5, 1) 14 ''2200'' (Some ''Bob'') (1 / 2),
      move (2024, 5, 1) 3 ''SITE-1430'' (Some ''Ann'') 1]
   \<and> Reporting_Shift numeric_of_digits
       [move (2024, 5, 1) 2 ''2200'' (Some ''Ann'') 1,
        move (2024, 5, 1) 14 ''2200'' (Some ''Bob'') (1 / 2),
        move (2024, 5, 1) 3 ''SITE-1430'' (Some ''Ann'') 1]
     = [''2200 (Overnight)'', ''2200'', ''1430'']"
proof -
  let ?day = "[move (2024, 5, 1) 2 ''2200'' (Some ''Ann'') 1,
               move (2024, 5, 1) 14 ''2200'' (Some ''Bob'') (1 / 2),
               move (2024, 5, 1) 3 ''SITE-1430'' (Some ''Ann'') 1]"
  have h: "\<forall>r\<in>set ?day. numeric_of_digits (Cleaned_Shift r) \<noteq> None"
    by (simp add: Cleaned_Shift_move numeric_of_digits_examples)
  have "Reporting_Shift numeric_of_digits ?day = map (per_record_rule numeric_of_digits) ?day"
    using reporting_shift_on_numeric_day [OF h] by (rule conjunct1)
  also have "\<dots> = [''2200 (Overnight)'', ''2200'', ''1430'']"
    by (simp add: per_record_rule_def Cleaned_Shift_move start_hour_move
        numeric_of_digits_examples LATE_SHIFT_START_HOUR_def)
  finally show ?thesis using h by (simp add: list_all_iff)
qed

text \<open>
  The claim as it is written, for every matched record, fails on a day that also has
  a code of letters: the record of code 2200 at hour 2 keeps the label 2200.
\<close>

theorem reporting_shift_mixed_day_counterexample:
  "Reporting_Shift numeric_of_digits
     [move (2024, 5, 1) 2 ''2200'' (Some ''Ann'') 1,
      move (2024, 5, 1) 9 ''DOCK'' (Some ''Bob'') 1]
   = [''2200'', ''DOCK'']
   \<and> map (per_record_rule numeric_of_digits)
       [move (2024, 5, 1) 2 ''2200'' (Some ''Ann'') 1,
        move (2024, 5, 1) 9 ''DOCK'' (Some ''Bob'') 1]
     = [''2200 (Overnight)'', ''DOCK'']"
  by (simp add: Reporting_Shift_def overnight_condition_def per_record_rule_def
      Cleaned_Shift_move start_hour_move numeric_of_digits_examples LATE_SHIFT_START_HOUR_def)

subsection \<open>Sending\<close>

lemma send_to_slack_Some: "send_to_slack (Some url) message = Inr (sent url message)"
  by (simp add: send_to_slack_def sent_def)

lemma send_to_slack_None: "send_to_slack None message = Inl TypeError"
  by (simp add: send_to_slack_def)

lemma send_all_Some: "send_all (Some url) messages = Inr (map (sent url) messages)"
  by (induction messages) (simp_all add: send_to_slack_Some)

lemma send_all_None: "messages \<noteq> [] \<Longrightarrow> send_all None messages = Inl TypeError"
  by (cases messages) (simp_all add: send_to_slack_None)

lemma report_messages_nonempty:
  "report_messages int_of ar rend target_day_str activity labels \<noteq> []"
  by (simp add: report_messages_def Let_def)

lemma analysis_None_raises: "\<exists>e. analysis lib ar rend None loaded target_day_str = Inl e"
proof (cases loaded)
  case (Inl e)
  then show ?thesis by (simp add: analysis_def)
next
  case (Inr df)
  show ?thesis
  proof (cases "to_datetime lib target_day_str")
    case None
    with Inr show ?thesis by (simp add: analysis_def)
  next
    case (Some target_date)
    with Inr show ?thesis
      by (simp add: analysis_def Let_def send_all_None report_messages_nonempty
          send_to_slack_None)
  qed
qed

text \<open>
  The run on a table with a column of texts and a target day that parses, when the
  webhook URL is set: the no-data notice or the report is delivered.
\<close>

lemma run_on_text_table:
  assumes "reads_as_text lib (map shift_code df)"
    and "to_datetime lib target_day_str = Some target_date"
  shows "analyze_day_performance lib ar rend (Some url) (Inr df) target_day_str
         = Inr (map (sent url)
             (if activity_on_target_day df target_date = []
              then [''No data found for the date: '' @ target_day_str]
              else report_messages (python_int lib) ar rend target_day_str
                     (activity_on_target_day df target_date)
                     (Reporting_Shift (to_numeric_cell lib)
                        (activity_on_target_day df target_date))))"
  using assms
  by (simp add: analyze_day_performance_def analysis_def Let_def send_all_Some
      del: send_all.simps)

lemma example_url_no_placeholder: "\<not> contains PLACEHOLDER_URL example_url"
  by (simp add: PLACEHOLDER_URL_def example_url_def)

lemma sent_example_url: "sent example_url message = Posted example_url message"
  by (simp add: sent_def example_url_no_placeholder)

lemma text_column_example:
  "numeric_of_digits (shift_code r) = None \<Longrightarrow> r \<in> set df
     \<Longrightarrow> reads_as_text example_library (map shift_code df)"
  by (auto simp: text_column_def example_library_simps list_ex_iff)




subsection \<open>Order of the shifts in the report\<close>

text \<open>
  Claim C7. The shifts of the report are the distinct labels of the day, every label
  with "(Overnight)" before every label without it; the key of a label of the first
  group is the label after "0\_", of the second group the label after "1\_", and each
  group is in the lexicographic order of its keys.
\<close>

theorem sorted_shifts_overnight_first:
  "sorted_shifts labels
     = filter (contains ''(Overnight)'') (sorted_shifts labels)
       @ filter (\<lambda>s. \<not> contains ''(Overnight)'' s) (sorted_shifts labels)
   \<and> map shift_sort_key (filter (contains ''(Overnight)'') (sorted_shifts labels))
       = map (append ''0_'') (filter (contains ''(Overnight)'') (sorted_shifts labels))
   \<and> map shift_sort_key (filter (\<lambda>s. \<not> contains ''(Overnight)'' s) (sorted_shifts labels))
       = map (append ''1_'') (filter (\<lambda>s. \<not> contains ''(Overnight)'' s) (sorted_shifts labels))
   \<and> sorted (map shift_sort_key (filter (contains ''(Overnight)'') (sorted_shifts labels)))
   \<and> sorted (map shift_sort_key
               (filter (\<lambda>s. \<not> contains ''(Overnight)'' s) (sorted_shifts labels)))
   \<and> distinct (sorted_shifts labels)
   \<and> set (sorted_shifts labels) = set labels"
proof -
  have part: "sorted_shifts labels
     = filter (contains ''(Overnight)'') (sorted_shifts labels)
       @ filter (\<lambda>s. \<not> contains ''(Overnight)'' s) (sorted_shifts labels)"
    using sorted_sorted_shifts by (rule sorted_key_partition)
  have k0: "map shift_sort_key (filter (contains ''(Overnight)'') ss)
            = map (append ''0_'') (filter (contains ''(Overnight)'') ss)" for ss
    by (induction ss) (simp_all add: shift_sort_key_def)
  have k1: "map shift_sort_key (filter (\<lambda>s. \<not> contains ''(Overnight)'' s) ss)
            = map (append ''1_'') (filter (\<lambda>s. \<not> contains ''(Overnight)'' s) ss)" for ss
    by (induction ss) (simp_all add: shift_sort_key_def)
  have s: "sorted (map shift_sort_key (filter P (sorted_shifts labels)))" for P
    using sorted_sorted_shifts by (rule sorted_filter)
  show ?thesis
    using part k0 k1 s distinct_sorted_shifts set_sorted_shifts by blast
qed

subsection \<open>The webhook URL\<close>

text \<open>
  Claim C4. With the placeholder in the URL, a send is skipped with a warning. With
  no \<open>WEBHOOK_URL\<close> in the environment the claim does not hold of the code: the test
  \<open>in SLACK_WEBHOOK_URL\<close> raises \<open>TypeError\<close> in every send, also in the one of the
  handler, so that every run ends with that exception.
\<close>

theorem absent_webhook_url_raises:
  "send_to_slack None message = Inl TypeError
   \<and> analyze_day_performance lib ar rend None loaded target_day_str = Inl TypeError
   \<and> send_to_slack (Some (pre @ PLACEHOLDER_URL @ post)) message = Inr Skipped_With_Warning"
proof -
  obtain e where "analysis lib ar rend None loaded target_day_str = Inl e"
    using analysis_None_raises by blast
  then have "analyze_day_performance lib ar rend None loaded target_day_str = Inl TypeError"
    by (simp add: analyze_day_performance_def send_to_slack_None)
  then show ?thesis
    by (simp add: send_to_slack_def contains_append)
qed

subsection \<open>A day without records\<close>

text \<open>
  Claim C9, as amended. On a table that was read with a column of texts for the shift
  codes, and for a target day that parses: when no row of the table is of the target
  day, the body of the run is the one call of \<open>send_to_slack\<close> with the notice "No
  data found for the date: ..." and nothing else; with a webhook URL that is set, the
  run returns without an exception, its only delivery being that notice: no report is
  sent.
\<close>

theorem no_data_short_circuit:
  assumes "reads_as_text lib (map shift_code df)"
    and "to_datetime lib target_day_str = Some target_date"
    and "activity_on_target_day df target_date = []"
  shows "analysis lib ar rend url (Inr df) target_day_str
         = (case send_to_slack url (''No data found for the date: '' @ target_day_str) of
              Inl e \<Rightarrow> Inl e
            | Inr d \<Rightarrow> Inr [d])
         \<and> analyze_day_performance lib ar rend (Some u) (Inr df) target_day_str
           = Inr [sent u (''No data found for the date: '' @ target_day_str)]"
proof -
  have "analysis lib ar rend url (Inr df) target_day_str
        = (case send_to_slack url (''No data found for the date: '' @ target_day_str) of
             Inl e \<Rightarrow> Inl e
           | Inr d \<Rightarrow> Inr [d])"
    using assms by (simp add: analysis_def split: sum.splits)
  then show ?thesis
    using run_on_text_table [OF assms(1,2), of ar rend u] assms(3) by simp
qed

text \<open>
  A table whose only row, of code SITE-0600, is of the day before the target day: the
  notice is posted.
\<close>

theorem no_data_short_circuit_witness:
  "reads_as_text example_library
     (map shift_code [move (2024, 4, 30) 7 ''SITE-0600'' (Some ''Ann'') 1])
   \<and> to_datetime example_library ''2024-05-01'' = Some (2024, 5, 1)
   \<and> activity_on_target_day [move (2024, 4, 30) 7 ''SITE-0600'' (Some ''Ann'') 1] (2024, 5, 1)
       = []
   \<and> analyze_day_performance example_library exact_arith example_rendering (Some example_url)
       (Inr [move (2024, 4, 30) 7 ''SITE-0600'' (Some ''Ann'') 1]) ''2024-05-01''
     = Inr [Posted example_url ''No data found for the date: 2024-05-01'']"
proof -
  let ?df = "[move (2024, 4, 30) 7 ''SITE-0600'' (Some ''Ann'') 1]"
  have col: "reads_as_text example_library (map shift_code ?df)"
    by (rule text_column_example [where r = "move (2024, 4, 30) 7 ''SITE-0600'' (Some ''Ann'') 1"])
       (simp_all add: move_def numeric_of_digits_examples)
  have date: "to_datetime example_library ''2024-05-01'' = Some (2024, 5, 1)"
    by (simp add: example_library_simps iso_date_example)
  have h: "activity_on_target_day ?df (2024, 5, 1) = []"
    by (simp add: activity_on_target_day_def move_def)
  have "analyze_day_performance example_library exact_arith example_rendering
          (Some example_url) (Inr ?df) ''2024-05-01''
        = Inr [Posted example_url ''No data found for the date: 2024-05-01'']"
    using no_data_short_circuit
            [where ar = exact_arith and rend = example_rendering and u = example_url,
             OF col date h]
    by (simp add: sent_example_url)
  with col date h show ?thesis by blast
qed

text \<open>
  The claim as it is written fails on a table whose shift codes are all numbers: the
  column is read as numbers, step 3 raises \<open>AttributeError\<close> before the day is
  filtered, and the run posts the notice of the handler, not the no-data notice.
\<close>

theorem no_data_on_numeric_column_counterexample:
  "\<not> reads_as_text example_library
       (map shift_code [move (2024, 4, 30) 7 ''0600'' (Some ''Ann'') 1])
   \<and> activity_on_target_day [move (2024, 4, 30) 7 ''0600'' (Some ''Ann'') 1] (2024, 5, 1) = []
   \<and> to_datetime example_library ''2024-05-01'' = Some (2024, 5, 1)
   \<and> analyze_day_performance example_library exact_arith example_rendering (Some example_url)
       (Inr [move (2024, 4, 30) 7 ''0600'' (Some ''Ann'') 1]) ''2024-05-01''
     = Inr [Posted example_url
              (''An unexpected error occurred in the daily report: ''
               @ ''Can only use .str accessor with string values!'')]"
proof -
  let ?df = "[move (2024, 4, 30) 7 ''0600'' (Some ''Ann'') 1]"
  have col: "\<not> reads_as_text example_library (map shift_code ?df)"
    by (simp add: text_column_def example_library_simps move_def numeric_of_digits_examples)
  have "analysis example_library exact_arith example_rendering (Some example_url) (Inr ?df)
          ''2024-05-01'' = Inl AttributeError"
    using col by (simp add: analysis_def)
  then have "analyze_day_performance example_library exact_arith example_rendering
               (Some example_url) (Inr ?df) ''2024-05-01''
             = Inr [Posted example_url
                      (''An unexpected error occurred in the daily report: ''
                       @ ''Can only use .str accessor with string values!'')]"
    by (simp add: analyze_day_performance_def send_to_slack_Some sent_example_url
        example_rendering_def)
  moreover have "activity_on_target_day ?df (2024, 5, 1) = []"
    by (simp add: activity_on_target_day_def move_def)
  moreover have "to_datetime example_library ''2024-05-01'' = Some (2024, 5, 1)"
    by (simp add: example_library_simps iso_date_example)
  ultimately show ?thesis using col by blast
qed

subsection \<open>Grouping and counting\<close>

lemma sum_list_indicator:
  "distinct ks \<Longrightarrow> sum_list (map (\<lambda>k. if a = k then 1 else 0) ks) = (if a \<in> set ks then 1 else (0::nat))"
  by (induction ks) auto

text \<open>The groups of a list by a key: their sizes add up to the length of the list.\<close>

lemma count_partition:
  "distinct ks \<Longrightarrow> f ` set xs \<subseteq> set ks
     \<Longrightarrow> sum_list (map (\<lambda>k. length (filter (\<lambda>x. f x = k) xs)) ks) = length xs"
proof (induction xs)
  case Nil
  show ?case by simp
next
  case (Cons x xs)
  have "sum_list (map (\<lambda>k. length (filter (\<lambda>y. f y = k) (x # xs))) ks)
        = sum_list (map (\<lambda>k. (if f x = k then 1 else 0) + length (filter (\<lambda>y. f y = k) xs)) ks)"
    by (intro arg_cong [where f = sum_list] map_cong) auto
  also have "\<dots> = sum_list (map (\<lambda>k. if f x = k then 1 else 0) ks)
                    + sum_list (map (\<lambda>k. length (filter (\<lambda>y. f y = k) xs)) ks)"
    by (simp add: sum_list_addf)
  also have "\<dots> = 1 + length xs"
    using Cons by (simp add: sum_list_indicator)
  finally show ?case by simp
qed

lemma sum_list_insort_key:
  "sum_list (map f (insort_key k x xs)) = f x + sum_list (map (f :: 'a \<Rightarrow> nat) xs)"
  by (induction xs) auto

lemma sum_list_sort_key:
  "sum_list (map f (sort_key k xs)) = sum_list (map (f :: 'a \<Rightarrow> nat) xs)"
  by (induction xs) (auto simp: sum_list_insort_key)

lemma set_group_keys: "set (group_keys rows) = {d. \<exists>r\<in>set rows. driver r = Some d}"
proof -
  have "set (group_keys rows) = (\<lambda>r. the (driver r)) ` {r \<in> set rows. driver r \<noteq> None}"
    by (simp add: group_keys_def List.map_filter_def comp_def)
  also have "\<dots> = {d. \<exists>r\<in>set rows. driver r = Some d}"
  proof (intro set_eqI iffI)
    fix d
    assume "d \<in> (\<lambda>r. the (driver r)) ` {r \<in> set rows. driver r \<noteq> None}"
    then obtain r where "r \<in> set rows" and "driver r \<noteq> None" and "d = the (driver r)"
      by auto
    then show "d \<in> {d. \<exists>r\<in>set rows. driver r = Some d}" by auto
  next
    fix d
    assume "d \<in> {d. \<exists>r\<in>set rows. driver r = Some d}"
    then obtain r where r: "r \<in> set rows" "driver r = Some d" by auto
    then have "r \<in> {r \<in> set rows. driver r \<noteq> None}" and "d = the (driver r)" by auto
    then show "d \<in> (\<lambda>r. the (driver r)) ` {r \<in> set rows. driver r \<noteq> None}"
      by (rule_tac image_eqI)
  qed
  finally show ?thesis .
qed

lemma distinct_group_keys: "distinct (group_keys rows)"
  by (simp add: group_keys_def)

lemma Driver_driver_stats: "Driver (driver_stats ar total_daily_moves rows d) = d"
  by (simp add: driver_stats_def Let_def)

lemma Move_Count_driver_stats:
  "Move_Count (driver_stats ar total_daily_moves rows d) = length (filter (\<lambda>r. driver r = Some d) rows)"
  by (simp add: driver_stats_def Let_def)

lemma set_shift_summary:
  "set (shift_summary ar total_daily_moves rows) = driver_stats ar total_daily_moves rows ` set (group_keys rows)"
  by (simp add: shift_summary_def)

lemma shift_summary_empty_iff:
  "shift_summary ar total_daily_moves rows = [] \<longleftrightarrow> (\<forall>r\<in>set rows. driver r = None)"
proof -
  have "shift_summary ar total_daily_moves rows = [] \<longleftrightarrow> set (shift_summary ar total_daily_moves rows) = {}"
    by simp
  also have "\<dots> \<longleftrightarrow> set (group_keys rows) = {}"
    by (simp only: set_shift_summary image_is_empty)
  also have "\<dots> \<longleftrightarrow> (\<forall>r\<in>set rows. driver r = None)"
  proof
    assume e: "set (group_keys rows) = {}"
    show "\<forall>r\<in>set rows. driver r = None"
    proof
      fix r assume r: "r \<in> set rows"
      show "driver r = None"
      proof (cases "driver r")
        case None
        then show ?thesis .
      next
        case (Some d)
        with r have "d \<in> set (group_keys rows)" unfolding set_group_keys by blast
        with e show ?thesis by simp
      qed
    qed
  next
    assume "\<forall>r\<in>set rows. driver r = None"
    then show "set (group_keys rows) = {}" unfolding set_group_keys by simp
  qed
  finally show ?thesis .
qed

text \<open>The rows of a table count the records of the shift that name a driver.\<close>

lemma sum_Move_Count:
  "sum_list (map Move_Count (shift_summary ar total_daily_moves rows))
   = length (filter (\<lambda>r. driver r \<noteq> None) rows)"
proof -
  let ?named = "filter (\<lambda>r. driver r \<noteq> None) rows"
  have "sum_list (map Move_Count (shift_summary ar total_daily_moves rows))
        = sum_list (map (\<lambda>d. length (filter (\<lambda>r. driver r = Some d) rows)) (group_keys rows))"
    by (simp add: shift_summary_def sum_list_sort_key comp_def Move_Count_driver_stats)
  also have "\<dots> = sum_list (map (\<lambda>d. length (filter (\<lambda>r. the (driver r) = d) ?named))
                       (group_keys rows))"
    by (intro arg_cong [where f = sum_list] map_cong refl arg_cong [where f = length])
       (auto intro!: filter_cong)
  also have "\<dots> = length ?named"
    by (rule count_partition) (auto simp: distinct_group_keys set_group_keys)
  finally show ?thesis .
qed

lemma shift_activity_nonempty:
  assumes "shift_name \<in> set labels" and "length labels = length activity"
  shows "shift_activity activity labels shift_name \<noteq> []"
proof -
  obtain r where "(r, shift_name) \<in> set (zip activity labels)"
    using assms by (metis in_set_impl_in_set_zip2)
  then have "(r, shift_name) \<in> set (filter (\<lambda>(r, l). l = shift_name) (zip activity labels))"
    by simp
  then show ?thesis
    unfolding shift_activity_def by (auto simp del: set_filter)
qed

text \<open>Every record of the day is in the group of its own label, and in no other.\<close>

lemma shift_activity_partition:
  assumes "length labels = length activity"
  shows "sum_list (map (\<lambda>s. length (filter P (shift_activity activity labels s)))
                     (sorted_shifts labels))
         = length (filter P activity)"
proof -
  let ?Z = "filter (\<lambda>p. P (fst p)) (zip activity labels)"
  have "length (filter P (shift_activity activity labels s))
        = length (filter (\<lambda>p. snd p = s) ?Z)" for s
  proof -
    have "length (filter P (shift_activity activity labels s))
          = length (filter (P \<circ> fst) (filter (\<lambda>(r, l). l = s) (zip activity labels)))"
      by (simp add: shift_activity_def filter_map)
    also have "\<dots> = length (filter (\<lambda>p. snd p = s) ?Z)"
      by (simp add: case_prod_unfold comp_def conj_commute)
    finally show ?thesis .
  qed
  then have "sum_list (map (\<lambda>s. length (filter P (shift_activity activity labels s)))
                        (sorted_shifts labels))
             = sum_list (map (\<lambda>s. length (filter (\<lambda>p. snd p = s) ?Z)) (sorted_shifts labels))"
    by simp
  also have "\<dots> = length ?Z"
  proof (rule count_partition)
    show "distinct (sorted_shifts labels)" by (rule distinct_sorted_shifts)
    show "snd ` set ?Z \<subseteq> set (sorted_shifts labels)"
      by (auto simp: set_sorted_shifts dest: set_zip_rightD)
  qed
  also have "\<dots> = length (filter P (map fst (zip activity labels)))"
    by (simp add: filter_map comp_def)
  also have "\<dots> = length (filter P activity)"
    using assms by simp
  finally show ?thesis .
qed

lemma set_shift_activity: "set (shift_activity activity labels shift_name) \<subseteq> set activity"
  by (auto simp: shift_activity_def dest: set_zip_leftD)

lemma shift_table_no_data_iff: "shift_table fmt summary = NO_EMPLOYEE_DATA \<longleftrightarrow> summary = []"
  by (simp add: shift_table_def NO_EMPLOYEE_DATA_def)

lemma driver_stats_formulas:
  "Avg_Idle_Time (driver_stats ar total_daily_moves rows d)
     = fmean ar (map idle_time (filter (\<lambda>r. driver r = Some d) rows))"
  "pct_of_Moves (driver_stats ar total_daily_moves rows d)
     = fdiv ar (of_nat (Move_Count (driver_stats ar total_daily_moves rows d)))
         (of_nat total_daily_moves)"
  "Idle_Impact (driver_stats ar total_daily_moves rows d)
     = fmul ar (fsub ar (Avg_Idle_Time (driver_stats ar total_daily_moves rows d))
                  BENCHMARK_IDLE_TIME)
         (of_nat (Move_Count (driver_stats ar total_daily_moves rows d)))"
  "Status (driver_stats ar total_daily_moves rows d)
     = get_impact_emoji (Idle_Impact (driver_stats ar total_daily_moves rows d))"
  by (simp_all add: driver_stats_def Let_def)

text \<open>The rows of a shift, from the day's records and their labels.\<close>

lemma filter_shift_activity:
  "filter P (shift_activity activity labels shift_name)
   = map fst (filter (\<lambda>(r, l). l = shift_name \<and> P r) (zip activity labels))"
  by (simp add: shift_activity_def filter_map comp_def case_prod_unfold)

lemma set_shift_activity_eq:
  "set (shift_activity activity labels shift_name)
   = {r. (r, shift_name) \<in> set (zip activity labels)}"
  by (force simp: shift_activity_def)

lemma distinct_Driver_shift_summary:
  "distinct (map Driver (shift_summary ar total_daily_moves rows))"
proof -
  have inj: "inj_on (driver_stats ar total_daily_moves rows) (set (group_keys rows))"
    by (rule inj_on_inverseI [where g = Driver]) (simp add: Driver_driver_stats)
  have "distinct (map (driver_stats ar total_daily_moves rows) (group_keys rows))"
    using inj by (simp add: distinct_map distinct_group_keys)
  then have d: "distinct (shift_summary ar total_daily_moves rows)"
    by (simp add: shift_summary_def)
  have "inj_on Driver (set (shift_summary ar total_daily_moves rows))"
    unfolding set_shift_summary
    by (rule inj_onI) (auto simp: Driver_driver_stats)
  with d show ?thesis by (simp add: distinct_map)
qed

lemma set_Driver_shift_summary:
  "set (map Driver (shift_summary ar total_daily_moves rows))
   = {d. \<exists>r\<in>set rows. driver r = Some d}"
proof -
  have "set (map Driver (shift_summary ar total_daily_moves rows))
        = (\<lambda>d. Driver (driver_stats ar total_daily_moves rows d)) ` set (group_keys rows)"
    by (simp add: set_shift_summary image_image)
  then show ?thesis by (simp add: Driver_driver_stats set_group_keys)
qed

subsection \<open>The table of a shift\<close>

text \<open>
  Claim C6. In the table of a reporting shift there is one row for every driver named
  by a record of the day with that label, and for no other driver. Its move count is
  the number of the day's records that have the label and name the driver, its
  average the mean of their idle times, its share of moves the move count over
  \<open>total_daily_moves\<close>, the number of the day's records, and its idle impact
  (average - benchmark) * move count, in the arithmetic of floats. The rows are in
  ascending order of idle impact.
\<close>

theorem driver_rows_of_shift:
  "(\<forall>row\<in>set (shift_summary ar (length activity)
                  (shift_activity activity (Reporting_Shift num activity) shift_name)).
      Move_Count row
        = length (driver_records activity (Reporting_Shift num activity) shift_name (Driver row))
      \<and> Avg_Idle_Time row
          = fmean ar (map idle_time
              (driver_records activity (Reporting_Shift num activity) shift_name (Driver row)))
      \<and> pct_of_Moves row = fdiv ar (of_nat (Move_Count row)) (of_nat (length activity))
      \<and> Idle_Impact row
          = fmul ar (fsub ar (Avg_Idle_Time row) BENCHMARK_IDLE_TIME) (of_nat (Move_Count row))
      \<and> Status row = get_impact_emoji (Idle_Impact row))
   \<and> sorted (map Idle_Impact
               (shift_summary ar (length activity)
                  (shift_activity activity (Reporting_Shift num activity) shift_name)))
   \<and> distinct (map Driver
                 (shift_summary ar (length activity)
                    (shift_activity activity (Reporting_Shift num activity) shift_name)))
   \<and> set (map Driver
            (shift_summary ar (length activity)
               (shift_activity activity (Reporting_Shift num activity) shift_name)))
       = {d. driver_records activity (Reporting_Shift num activity) shift_name d \<noteq> []}"
proof -
  define labels where "labels = Reporting_Shift num activity"
  define rows where "rows = shift_activity activity labels shift_name"
  define n where "n = length activity"
  have recs: "filter (\<lambda>r. driver r = Some d) rows = driver_records activity labels shift_name d"
    for d
    unfolding rows_def driver_records_def by (rule filter_shift_activity)
  have "\<forall>row\<in>set (shift_summary ar n rows).
      Move_Count row = length (driver_records activity labels shift_name (Driver row))
      \<and> Avg_Idle_Time row
          = fmean ar (map idle_time (driver_records activity labels shift_name (Driver row)))
      \<and> pct_of_Moves row = fdiv ar (of_nat (Move_Count row)) (of_nat n)
      \<and> Idle_Impact row
          = fmul ar (fsub ar (Avg_Idle_Time row) BENCHMARK_IDLE_TIME) (of_nat (Move_Count row))
      \<and> Status row = get_impact_emoji (Idle_Impact row)"
  proof
    fix row assume "row \<in> set (shift_summary ar n rows)"
    then obtain d where row: "row = driver_stats ar n rows d"
      unfolding set_shift_summary by blast
    show "Move_Count row = length (driver_records activity labels shift_name (Driver row))
      \<and> Avg_Idle_Time row
          = fmean ar (map idle_time (driver_records activity labels shift_name (Driver row)))
      \<and> pct_of_Moves row = fdiv ar (of_nat (Move_Count row)) (of_nat n)
      \<and> Idle_Impact row
          = fmul ar (fsub ar (Avg_Idle_Time row) BENCHMARK_IDLE_TIME) (of_nat (Move_Count row))
      \<and> Status row = get_impact_emoji (Idle_Impact row)"
      unfolding row Driver_driver_stats
      using driver_stats_formulas [of ar n rows d] Move_Count_driver_stats [of ar n rows d]
      by (simp add: recs)
  qed
  moreover have "sorted (map Idle_Impact (shift_summary ar n rows))"
    by (simp add: shift_summary_def)
  moreover have "set (map Driver (shift_summary ar n rows))
                 = {d. driver_records activity labels shift_name d \<noteq> []}"
  proof -
    have "(\<exists>r\<in>set rows. driver r = Some d)
          \<longleftrightarrow> driver_records activity labels shift_name d \<noteq> []" for d
      unfolding recs [symmetric] by (simp add: filter_empty_conv)
    then show ?thesis
      unfolding set_Driver_shift_summary by simp
  qed
  ultimately show ?thesis
    using distinct_Driver_shift_summary [of ar n rows]
    unfolding rows_def n_def labels_def by blast
qed

text \<open>
  A day with two shifts. The table of shift 0600 has the rows of Ann, with two moves,
  and of Bob, with one; Cy, who drove in shift 1400 only, has no row in it.
\<close>

theorem driver_rows_of_shift_witness:
  "Reporting_Shift numeric_of_digits
     [move (2024, 5, 1) 9 ''SITE-0600'' (Some ''Bob'') (3 / 2),
      move (2024, 5, 1) 15 ''SITE-1400'' (Some ''Cy'') 2,
      move (2024, 5, 1) 10 ''SITE-0600'' (Some ''Ann'') (1 / 2),
      move (2024, 5, 1) 11 ''SITE-0600'' (Some ''Ann'') 1]
   = [''0600'', ''1400'', ''0600'', ''0600'']
   \<and> map Driver
       (shift_summary exact_arith 4
          (shift_activity
             [move (2024, 5, 1) 9 ''SITE-0600'' (Some ''Bob'') (3 / 2),
              move (2024, 5, 1) 15 ''SITE-1400'' (Some ''Cy'') 2,
              move (2024, 5, 1) 10 ''SITE-0600'' (Some ''Ann'') (1 / 2),
              move (2024, 5, 1) 11 ''SITE-0600'' (Some ''Ann'') 1]
             [''0600'', ''1400'', ''0600'', ''0600''] ''0600''))
     = [''Ann'', ''Bob'']
   \<and> map Move_Count
       (shift_summary exact_arith 4
          (shift_activity
             [move (2024, 5, 1) 9 ''SITE-0600'' (Some ''Bob'') (3 / 2),
              move (2024, 5, 1) 15 ''SITE-1400'' (Some ''Cy'') 2,
              move (2024, 5, 1) 10 ''SITE-0600'' (Some ''Ann'') (1 / 2),
              move (2024, 5, 1) 11 ''SITE-0600'' (Some ''Ann'') 1]
             [''0600'', ''1400'', ''0600'', ''0600''] ''0600''))
     = [2, 1]
   \<and> list_all
       (\<lambda>row. Move_Count row
                = length (driver_records
                    [move (2024, 5, 1) 9 ''SITE-0600'' (Some ''Bob'') (3 / 2),
                     move (2024, 5, 1) 15 ''SITE-1400'' (Some ''Cy'') 2,
                     move (2024, 5, 1) 10 ''SITE-0600'' (Some ''Ann'') (1 / 2),
                     move (2024, 5, 1) 11 ''SITE-0600'' (Some ''Ann'') 1]
                    [''0600'', ''1400'', ''0600'', ''0600''] ''0600'' (Driver row))
              \<and> pct_of_Moves row = fdiv exact_arith (of_nat (Move_Count row)) (of_nat 4)
              \<and> Idle_Impact row
                  = fmul exact_arith (fsub exact_arith (Avg_Idle_Time row) BENCHMARK_IDLE_TIME)
                      (of_nat (Move_Count row)))
       (shift_summary exact_arith 4
          (shift_activity
             [move (2024, 5, 1) 9 ''SITE-0600'' (Some ''Bob'') (3 / 2),
              move (2024, 5, 1) 15 ''SITE-1400'' (Some ''Cy'') 2,
              move (2024, 5, 1) 10 ''SITE-0600'' (Some ''Ann'') (1 / 2),
              move (2024, 5, 1) 11 ''SITE-0600'' (Some ''Ann'') 1]
             [''0600'', ''1400'', ''0600'', ''0600''] ''0600''))"
proof -
  let ?day = "[move (2024, 5, 1) 9 ''SITE-0600'' (Some ''Bob'') (3 / 2),
               move (2024, 5, 1) 15 ''SITE-1400'' (Some ''Cy'') 2,
               move (2024, 5, 1) 10 ''SITE-0600'' (Some ''Ann'') (1 / 2),
               move (2024, 5, 1) 11 ''SITE-0600'' (Some ''Ann'') 1]"
  let ?rows = "[move (2024, 5, 1) 9 ''SITE-0600'' (Some ''Bob'') (3 / 2),
                move (2024, 5, 1) 10 ''SITE-0600'' (Some ''Ann'') (1 / 2),
                move (2024, 5, 1) 11 ''SITE-0600'' (Some ''Ann'') 1]"
  have labels: "Reporting_Shift numeric_of_digits ?day = [''0600'', ''1400'', ''0600'', ''0600'']"
    by (simp add: Reporting_Shift_def overnight_condition_def Cleaned_Shift_move
        start_hour_move numeric_of_digits_examples LATE_SHIFT_START_HOUR_def)
  have rows: "shift_activity ?day [''0600'', ''1400'', ''0600'', ''0600''] ''0600'' = ?rows"
    by (simp add: shift_activity_def)
  have keys: "group_keys ?rows = [''Ann'', ''Bob'']"
    by (simp add: group_keys_def move_def)
  have val: "shift_summary exact_arith 4 ?rows
     = [\<lparr>Status = symbol Fine, Driver = ''Ann'', Avg_Idle_Time = 3 / 4, Move_Count = 2,
         pct_of_Moves = 1 / 2, Idle_Impact = 7 / 50\<rparr>,
        \<lparr>Status = symbol Fine, Driver = ''Bob'', Avg_Idle_Time = 3 / 2, Move_Count = 1,
         pct_of_Moves = 1 / 4, Idle_Impact = 41 / 50\<rparr>]"
    unfolding shift_summary_def keys
    by (simp add: driver_stats_def move_def mean_def exact_arith_def BENCHMARK_IDLE_TIME_def
        get_impact_emoji_def)
  have len: "length ?day = 4" by simp
  have cols: "map Driver (shift_summary exact_arith 4 ?rows) = [''Ann'', ''Bob'']"
    "map Move_Count (shift_summary exact_arith 4 ?rows) = [2, 1]"
    unfolding val by simp_all
  note rows_ok = driver_rows_of_shift [of exact_arith ?day numeric_of_digits "''0600''",
                   unfolded labels len rows, THEN conjunct1, folded list_all_iff]
  have "list_all
       (\<lambda>row. Move_Count row
                = length (driver_records ?day [''0600'', ''1400'', ''0600'', ''0600''] ''0600''
                            (Driver row))
              \<and> pct_of_Moves row = fdiv exact_arith (of_nat (Move_Count row)) (of_nat 4)
              \<and> Idle_Impact row
                  = fmul exact_arith (fsub exact_arith (Avg_Idle_Time row) BENCHMARK_IDLE_TIME)
                      (of_nat (Move_Count row)))
       (shift_summary exact_arith 4 ?rows)"
    by (rule list.pred_mono_strong [OF rows_ok]) simp
  with labels cols show ?thesis
    unfolding rows by blast
qed

lemma Reporting_Shift_examples:
  "Reporting_Shift numeric_of_digits
     [move (2024, 5, 1) 14 ''1400'' None 1,
      move (2024, 5, 1) 15 ''1400'' (Some ''Ann'') 1]
   = [''1400'', ''1400'']"
  "Reporting_Shift numeric_of_digits [move (2024, 5, 1) 14 ''1400'' None 1] = [''1400'']"
  "Reporting_Shift numeric_of_digits
     [move (2024, 5, 1) 7 ''0600'' (Some ''Ann'') 1,
      move (2024, 5, 1) 8 ''0600'' (Some ''Bob'') 2,
      move (2024, 5, 1) 15 ''1400'' (Some ''Ann'') 1]
   = [''0600'', ''0600'', ''1400'']"
  by (simp_all add: Reporting_Shift_def overnight_condition_def Cleaned_Shift_move
      start_hour_move numeric_of_digits_def is_digit_def unsigned_value_def digit_val_def
      LATE_SHIFT_START_HOUR_def)

subsection \<open>Move counts\<close>

text \<open>
  Claim C8, as amended. Within each reporting shift the move counts of the drivers sum
  to the number of the shift's records that name a driver, and over all reporting
  shifts they sum to the number of the day's records that name a driver. When every
  record of the day names a driver, these are the record count of the shift and
  \<open>total_daily_moves\<close>.
\<close>

theorem move_counts_sum_to_named_records:
  "sum_list (map Move_Count
       (shift_summary ar (length activity)
          (shift_activity activity (Reporting_Shift num activity) shift_name)))
   = length (filter (\<lambda>r. driver r \<noteq> None)
               (shift_activity activity (Reporting_Shift num activity) shift_name))
   \<and> sum_list (map (\<lambda>s. sum_list (map Move_Count
                       (shift_summary ar (length activity)
                          (shift_activity activity (Reporting_Shift num activity) s))))
                 (sorted_shifts (Reporting_Shift num activity)))
     = length (filter (\<lambda>r. driver r \<noteq> None) activity)
   \<and> ((\<forall>r\<in>set activity. driver r \<noteq> None) \<longrightarrow>
        sum_list (map Move_Count
          (shift_summary ar (length activity)
             (shift_activity activity (Reporting_Shift num activity) shift_name)))
        = length (shift_activity activity (Reporting_Shift num activity) shift_name)
        \<and> sum_list (map (\<lambda>s. sum_list (map Move_Count
                            (shift_summary ar (length activity)
                               (shift_activity activity (Reporting_Shift num activity) s))))
                      (sorted_shifts (Reporting_Shift num activity)))
          = length activity)"
proof -
  define labels where "labels = Reporting_Shift num activity"
  have len: "length labels = length activity"
    unfolding labels_def by (rule length_Reporting_Shift)
  have one: "sum_list (map Move_Count (shift_summary ar (length activity)
                 (shift_activity activity labels s)))
             = length (filter (\<lambda>r. driver r \<noteq> None) (shift_activity activity labels s))" for s
    by (rule sum_Move_Count)
  have all: "sum_list (map (\<lambda>s. sum_list (map Move_Count
                 (shift_summary ar (length activity) (shift_activity activity labels s))))
               (sorted_shifts labels))
             = length (filter (\<lambda>r. driver r \<noteq> None) activity)"
    unfolding one using len by (rule shift_activity_partition)
  have named: "filter (\<lambda>r. driver r \<noteq> None) (shift_activity activity labels s)
               = shift_activity activity labels s"
    and named_day: "filter (\<lambda>r. driver r \<noteq> None) activity = activity"
    if "\<forall>r\<in>set activity. driver r \<noteq> None" for s
    using that set_shift_activity [of activity labels s] by (auto simp: filter_id_conv)
  show ?thesis
    using one [of shift_name] all named [of shift_name] named_day
    unfolding labels_def by simp
qed

theorem move_counts_sum_to_named_records_witness:
  "list_all (\<lambda>r. driver r \<noteq> None)
     [move (2024, 5, 1) 7 ''0600'' (Some ''Ann'') 1,
      move (2024, 5, 1) 8 ''0600'' (Some ''Bob'') 2,
      move (2024, 5, 1) 15 ''1400'' (Some ''Ann'') 1]
   \<and> sum_list (map Move_Count
         (shift_summary exact_arith 3
            (shift_activity
               [move (2024, 5, 1) 7 ''0600'' (Some ''Ann'') 1,
                move (2024, 5, 1) 8 ''0600'' (Some ''Bob'') 2,
                move (2024, 5, 1) 15 ''1400'' (Some ''Ann'') 1]
               [''0600'', ''0600'', ''1400''] ''0600'')))
     = 2
   \<and> sum_list (map (\<lambda>s. sum_list (map Move_Count
                       (shift_summary exact_arith 3
                          (shift_activity
                             [move (2024, 5, 1) 7 ''0600'' (Some ''Ann'') 1,
                              move (2024, 5, 1) 8 ''0600'' (Some ''Bob'') 2,
                              move (2024, 5, 1) 15 ''1400'' (Some ''Ann'') 1]
                             [''0600'', ''0600'', ''1400''] s))))
                 (sorted_shifts [''0600'', ''0600'', ''1400'']))
     = 3"
proof -
  let ?day = "[move (2024, 5, 1) 7 ''0600'' (Some ''Ann'') 1,
               move (2024, 5, 1) 8 ''0600'' (Some ''Bob'') 2,
               move (2024, 5, 1) 15 ''1400'' (Some ''Ann'') 1]"
  have h: "\<forall>r\<in>set ?day. driver r \<noteq> None"
    by (simp add: move_def)
  have n: "length (shift_activity ?day [''0600'', ''0600'', ''1400''] ''0600'') = 2"
    by (simp add: shift_activity_def)
  have len: "length ?day = 3" by simp
  show ?thesis
    using move_counts_sum_to_named_records [of exact_arith ?day numeric_of_digits "''0600''"] h n
    unfolding Reporting_Shift_examples len
    by (simp add: list_all_iff)
qed

text \<open>
  The claim as it is written fails for a record with an empty driver cell: the shift
  1400 has two records, and the move counts of its table sum to one.
\<close>

theorem move_counts_miss_unnamed_record_counterexample:
  "sum_list (map Move_Count
       (shift_summary exact_arith 2
          (shift_activity
             [move (2024, 5, 1) 14 ''1400'' None 1,
              move (2024, 5, 1) 15 ''1400'' (Some ''Ann'') 1]
             (Reporting_Shift numeric_of_digits
                [move (2024, 5, 1) 14 ''1400'' None 1,
                 move (2024, 5, 1) 15 ''1400'' (Some ''Ann'') 1])
             ''1400'')))
   = 1
   \<and> length (shift_activity
         [move (2024, 5, 1) 14 ''1400'' None 1,
          move (2024, 5, 1) 15 ''1400'' (Some ''Ann'') 1]
         (Reporting_Shift numeric_of_digits
            [move (2024, 5, 1) 14 ''1400'' None 1,
             move (2024, 5, 1) 15 ''1400'' (Some ''Ann'') 1])
         ''1400'')
     = 2"
  unfolding Reporting_Shift_examples
  by (simp add: shift_activity_def shift_summary_def group_keys_def driver_stats_def move_def exact_arith_def
      Let_def)

subsection \<open>The branch for a shift without drivers\<close>

text \<open>
  Claim C10, as amended. Every reporting shift that is rendered is one of the labels of
  the day's records, so at least one record has it. Its table has at least one row,
  and the line "No employee data to analyze for this shift." is not rendered, exactly
  when some record of the shift names a driver; the line is rendered when every record
  of the shift has an empty driver cell.
\<close>

theorem zero_driver_branch_iff_no_named_record:
  assumes "shift_name \<in> set (sorted_shifts (Reporting_Shift num activity))"
  shows "shift_activity activity (Reporting_Shift num activity) shift_name \<noteq> []
         \<and> (shift_summary ar (length activity)
               (shift_activity activity (Reporting_Shift num activity) shift_name) = []
              \<longleftrightarrow> (\<forall>r\<in>set (shift_activity activity (Reporting_Shift num activity) shift_name).
                     driver r = None))
         \<and> (shift_table fmt
               (shift_summary ar (length activity)
                  (shift_activity activity (Reporting_Shift num activity) shift_name))
             = NO_EMPLOYEE_DATA
              \<longleftrightarrow> (\<forall>r\<in>set (shift_activity activity (Reporting_Shift num activity) shift_name).
                     driver r = None))"
proof -
  have "shift_name \<in> set (Reporting_Shift num activity)"
    using assms by (simp add: set_sorted_shifts)
  then have "shift_activity activity (Reporting_Shift num activity) shift_name \<noteq> []"
    using length_Reporting_Shift by (rule shift_activity_nonempty)
  then show ?thesis
    by (simp only: shift_table_no_data_iff shift_summary_empty_iff simp_thms)
qed

theorem zero_driver_branch_iff_no_named_record_witness:
  "list_all (\<lambda>s. shift_activity
                   [move (2024, 5, 1) 14 ''1400'' None 1,
                    move (2024, 5, 1) 15 ''1400'' (Some ''Ann'') 1]
                   [''1400'', ''1400''] s \<noteq> [])
     (sorted_shifts [''1400'', ''1400''])
   \<and> sorted_shifts [''1400'', ''1400''] = [''1400'']
   \<and> shift_table (format_for_slack example_rendering)
       (shift_summary exact_arith 2
          (shift_activity
             [move (2024, 5, 1) 14 ''1400'' None 1,
              move (2024, 5, 1) 15 ''1400'' (Some ''Ann'') 1]
             [''1400'', ''1400''] ''1400''))
     \<noteq> NO_EMPLOYEE_DATA"
proof -
  let ?day = "[move (2024, 5, 1) 14 ''1400'' None 1,
               move (2024, 5, 1) 15 ''1400'' (Some ''Ann'') 1]"
  have s: "sorted_shifts [''1400'', ''1400''] = [''1400'']"
    by (simp add: sorted_shifts_def unique_def)
  have mem: "''1400'' \<in> set (sorted_shifts (Reporting_Shift numeric_of_digits ?day))"
    unfolding Reporting_Shift_examples s by simp
  have named: "\<not> (\<forall>r\<in>set (shift_activity ?day [''1400'', ''1400''] ''1400''). driver r = None)"
    by (simp add: shift_activity_def move_def)
  have len: "length ?day = 2" by simp
  show ?thesis
    using zero_driver_branch_iff_no_named_record
            [where fmt = "format_for_slack example_rendering", OF mem] named
    unfolding Reporting_Shift_examples len s
    by simp
qed

text \<open>
  The claim as it is written fails: for a day whose only record has an empty driver
  cell, the shift 1400 is rendered, its table has no row, and the report of the shift
  is the line of the zero-driver branch.
\<close>

theorem zero_driver_branch_taken_counterexample:
  "sorted_shifts (Reporting_Shift numeric_of_digits [move (2024, 5, 1) 14 ''1400'' None 1])
   = [''1400'']
   \<and> shift_summary exact_arith 1
       (shift_activity [move (2024, 5, 1) 14 ''1400'' None 1]
          (Reporting_Shift numeric_of_digits [move (2024, 5, 1) 14 ''1400'' None 1]) ''1400'')
     = []
   \<and> shift_report exact_arith (format_for_slack example_rendering) 1
       [move (2024, 5, 1) 14 ''1400'' None 1]
       (Reporting_Shift numeric_of_digits [move (2024, 5, 1) 14 ''1400'' None 1]) ''1400''
     = newline @ ''*14:00*'' @ newline @ ''No employee data to analyze for this shift.''"
  unfolding Reporting_Shift_examples
  by (simp add: sorted_shifts_def unique_def shift_report_def shift_table_def shift_header_def
      shift_activity_def shift_summary_def group_keys_def move_def NO_EMPLOYEE_DATA_def is_continuation_def
      Let_def numeral_2_eq_2)

subsection \<open>The split point\<close>









subsection \<open>The split into messages\<close>




end
